theory Spec2Isabelle
  imports Main "HOL-Library.Word" "HOL-Library.Sublist"
begin

unbundle bit_operations_syntax

section \<open>Shared abstractions (package core)\<close>

text \<open>
  The values handed to \<^verbatim>\<open>fmt.Sprintf\<close> and \<^verbatim>\<open>fmt.Errorf\<close> by this library are
  strings, integers and reflected kinds.  Go's formatter itself is not part of
  the repository: it is a parameter \<open>sprintf\<close> of the model, and an error built
  by \<^verbatim>\<open>fmt.Errorf\<close> keeps its format and its operands unformatted.
\<close>

datatype kind =
    reflect_Invalid | reflect_Bool | reflect_Int | reflect_Int8 | reflect_Int16
  | reflect_Int32 | reflect_Int64 | reflect_Uint | reflect_Uint8 | reflect_Uint16
  | reflect_Uint32 | reflect_Uint64 | reflect_Uintptr | reflect_Float32
  | reflect_Float64 | reflect_Complex64 | reflect_Complex128 | reflect_Array
  | reflect_Chan | reflect_Func | reflect_Interface | reflect_Map | reflect_Ptr
  | reflect_Slice | reflect_String | reflect_Struct | reflect_UnsafePointer

datatype arg = AStr string | AInt int | AKind kind

text \<open>The \<^verbatim>\<open>status\<close> struct of \<^verbatim>\<open>core/share.go\<close>.\<close>

record status =
  num :: int
  context' :: string

datatype error = StatusError status | Errorf string "arg list"

text \<open>
  \<^verbatim>\<open>core.Status\<close>: a negative code becomes a \<^verbatim>\<open>status\<close> error whose context is the
  formatted context string; any other code is \<^verbatim>\<open>nil\<close> (\<open>None\<close>).
\<close>

definition Status :: "(string \<Rightarrow> arg list \<Rightarrow> string) \<Rightarrow> int \<Rightarrow> string \<Rightarrow> arg list \<Rightarrow> error option" where
  "Status sprintf code ctx args =
     (if code < 0 then Some (StatusError \<lparr>num = code, context' = sprintf ctx args\<rparr>)
      else None)"

text \<open>Decimal rendering of an integer, as the verb \<^verbatim>\<open>%v\<close> prints a Go \<^verbatim>\<open>int\<close>.\<close>

definition digit_char :: "nat \<Rightarrow> char" where
  "digit_char d = char_of (48 + d)"

fun nat_digits :: "nat \<Rightarrow> string" where
  "nat_digits n = (if n < 10 then [digit_char n] else nat_digits (n div 10) @ [digit_char (n mod 10)])"

declare nat_digits.simps [simp del]

definition itoa :: "int \<Rightarrow> string" where
  "itoa i = (if i < 0 then CHR ''-'' # nat_digits (nat (- i)) else nat_digits (nat i))"

text \<open>
  \<^verbatim>\<open>(*status).Error\<close>: the format \<^verbatim>\<open>"Error while %s [status: %v]"\<close> applied to the
  context string and the status integer.
\<close>

definition status_Error :: "status \<Rightarrow> string" where
  "status_Error self = ''Error while '' @ context' self @ '' [status: '' @ itoa (num self) @ '']''"

section \<open>The HDF5 library as an opaque engine\<close>

type_synonym hid = int
type_synonym hsize_t = "64 word"
type_synonym size_t = "64 word"
type_synonym uint = "64 word"
type_synonym byte = "8 word"

text \<open>
  The selection operators of \<^verbatim>\<open>h5s\<close> (the C enumeration \<^verbatim>\<open>H5S_seloper_t\<close>).  The
  operators \<^verbatim>\<open>AND\<close>, \<^verbatim>\<open>OR\<close> and \<^verbatim>\<open>XOR\<close> carry a suffix here, their names being those
  of the bit operations on words.
\<close>

datatype OP = SET | AND_op | OR_op | XOR_op | NOTA | NOTB | APPEND | PREPEND

text \<open>
  The classes of datatypes of \<^verbatim>\<open>h5t\<close>, and the C enumerations for the sign of an
  integer type and the character set of a string type.
\<close>

datatype Class =
    NO_CLASS | INTEGER | FLOAT | TIME | STRING | BITFIELD | OPAQUE | COMPOUND
  | REF | ENUM | VLEN | ARRAY

datatype H5T_sign = H5T_SGN_NONE | H5T_SGN_2

datatype H5T_cset = H5T_CSET_ASCII | H5T_CSET_UTF8

text \<open>The integer an enumeration wrapper points the library to, with its width.\<close>

datatype cval = U8 "8 word" | U16 "16 word" | U32 "32 word" | U64 "64 word"

text \<open>
  Every C function the wrappers call is one constructor, carrying the arguments
  that reach the C side.  A pointer argument is represented by the data it points
  to; \<open>None\<close> is the \<^verbatim>\<open>NULL\<close> pointer.
\<close>

datatype ccall =
    H5Sdecode "byte list"
  | H5Sencode hid "byte list option" size_t
  | H5Screate_simple "32 word" "hsize_t list" "hsize_t list option"
  | H5Sselect_hyperslab hid OP "hsize_t list option" "hsize_t list option"
      "hsize_t list option" "hsize_t list option"
  | H5Sselect_elements hid OP size_t "hsize_t list"
  | H5Tdecode "byte list"
  | H5Tencode hid "byte list option" size_t
  | H5Tcopy hid
  | H5Tclose hid
  | H5Tset_size hid size_t
  | H5Tset_sign hid H5T_sign
  | H5Tset_cset hid H5T_cset
  | H5Tcreate Class size_t
  | H5Topen hid string hid
  | H5Tinsert hid string size_t hid
  | H5Tvlen_create hid
  | H5Tarray_create2 hid "32 word" "hsize_t list"
  | H5Tenum_create hid
  | H5Tenum_insert hid string cval
  | H5Tenum_nameof hid cval size_t

type_synonym log = "ccall list"

text \<open>
  The native type handles that \<^verbatim>\<open>types.h\<close> sets up in \<^verbatim>\<open>C.init()\<close>.
\<close>

datatype native =
    NCHAR | NSHORT | NINT | NLONG | NUCHAR | NUSHORT | NUINT | NULONG
  | NFLOAT | NDOUBLE | NBOOL | N8 | N16 | N32 | N64 | VSTRING

text \<open>
  The engine is any deterministic library: what it returns for a call is a
  function of the calls made so far and of the call itself: the integer result
  (\<open>ret\<close>), the size it stores through a \<^verbatim>\<open>size_t*\<close> argument (\<open>out_size\<close>) and the
  bytes it writes into an output buffer (\<open>out_bytes\<close>).  The record also carries
  what the wrappers take from outside the repository: Go's formatter, the native
  handles, and the constants \<^verbatim>\<open>H5S_UNLIMITED\<close>, \<^verbatim>\<open>H5T_VARIABLE\<close> (as the Go \<^verbatim>\<open>int\<close>
  constant \<^verbatim>\<open>VARIABLE\<close>) and \<^verbatim>\<open>H5P_DEFAULT\<close>.
\<close>

record env =
  ret :: "log \<Rightarrow> ccall \<Rightarrow> int"
  out_size :: "log \<Rightarrow> ccall \<Rightarrow> size_t"
  out_bytes :: "log \<Rightarrow> ccall \<Rightarrow> byte list"
  sprintf :: "string \<Rightarrow> arg list \<Rightarrow> string"
  native :: "native \<Rightarrow> hid"
  H5S_UNLIMITED :: hsize_t
  VARIABLE :: int
  H5P_DEFAULT :: hid

definition ccall :: "env \<Rightarrow> ccall \<Rightarrow> log \<Rightarrow> int \<times> log" where
  "ccall e c l = (ret e l c, l @ [c])"

text \<open>A Go call either returns or panics (an index out of range, a nil receiver).\<close>

datatype 'a res = Panic | Ret 'a

text \<open>
  An output buffer after the library has written into it: the library writes a
  prefix, the rest keeps its former contents.
\<close>

definition written :: "byte list \<Rightarrow> byte list \<Rightarrow> byte list" where
  "written buf bs = take (length buf) bs @ drop (length bs) buf"

section \<open>Dataspaces (package h5s)\<close>

definition try_s :: "env \<Rightarrow> hid \<Rightarrow> string \<Rightarrow> arg list \<Rightarrow> hid \<times> error option" where
  "try_s e id' ctx args = (id', Status (sprintf e) id' (sprintf e ctx args) [])"

text \<open>
  \<^verbatim>\<open>h5s.Encode\<close>: a first call with a \<^verbatim>\<open>NULL\<close> buffer asks for the size, a second one
  fills a buffer of that size.  \<^verbatim>\<open>make\<close> panics on a negative length, and so does
  \<^verbatim>\<open>&bin[0]\<close> on an empty buffer.  \<open>None\<close> is the \<^verbatim>\<open>nil\<close> slice.
\<close>

definition h5s_Encode :: "env \<Rightarrow> hid \<Rightarrow> log \<Rightarrow> (byte list option \<times> error option) res \<times> log" where
  "h5s_Encode e id' l =
     (let c1 = H5Sencode id' None 0;
          (r1, l1) = ccall e c1 l;
          sze = out_size e l c1
      in case Status (sprintf e) r1 ''computing encoding size'' [] of
           Some err \<Rightarrow> (Ret (None, Some err), l1)
         | None \<Rightarrow>
             (if sint sze < 0 then (Panic, l1)
              else (let bin = replicate (unat sze) (0 :: byte)
                    in if bin = [] then (Panic, l1)
                       else (let c2 = H5Sencode id' (Some bin) sze;
                                 (r2, l2) = ccall e c2 l1
                             in (Ret (Some (written bin (out_bytes e l1 c2)),
                                      Status (sprintf e) r2 ''encoding dataspace'' []), l2)))))"

text \<open>\<^verbatim>\<open>h5s.Decode\<close>.\<close>

definition h5s_Decode :: "env \<Rightarrow> byte list \<Rightarrow> log \<Rightarrow> (hid \<times> error option) \<times> log" where
  "h5s_Decode e bin l =
     (if length bin > 0 then
        (let (r, l') = ccall e (H5Sdecode bin) l in (try_s e r ''decoding dataspace'' [], l'))
      else ((- 1, Some (Errorf ''Empty array'' [])), l))"

text \<open>
  \<^verbatim>\<open>h5s.CreateSimple\<close>.  A Go \<^verbatim>\<open>int\<close> converts to \<^verbatim>\<open>hsize_t\<close> by keeping its 64 bits
  (\<open>word_of_int\<close>); \<open>None\<close> is the \<^verbatim>\<open>nil\<close> slice.  Taking the address of the first
  element of an empty slice panics.
\<close>

definition max_entry :: "env \<Rightarrow> int \<Rightarrow> hsize_t" where
  "max_entry e m = (if m < 0 then 0xffffffff AND H5S_UNLIMITED e else word_of_int m)"

definition CreateSimple :: "env \<Rightarrow> int list \<Rightarrow> int list option \<Rightarrow> log \<Rightarrow> (hid \<times> error option) res \<times> log" where
  "CreateSimple e shape maxs l =
     (let n = length shape;
          current = map word_of_int shape :: hsize_t list
      in case maxs of
           None \<Rightarrow>
             (if current = [] then (Panic, l)
              else (let (r, l') = ccall e (H5Screate_simple (of_nat n) current None) l
                    in (Ret (try_s e r ''creating simple dataspace'' []), l')))
         | Some ms \<Rightarrow>
             (if length ms \<noteq> n then
                (Ret (- 1, Some (Errorf ''Invalid max length: expecting %v, got %v instead.''
                                   [AInt (int n), AInt (int (length ms))])), l)
              else (let a = map (max_entry e) ms
                    in if a = [] then (Panic, l)
                       else if current = [] then (Panic, l)
                       else (let (r, l') = ccall e (H5Screate_simple (of_nat n) current (Some a)) l
                             in (Ret (try_s e r ''creating simple dataspace'' []), l')))))"

text \<open>\<^verbatim>\<open>ccoords\<close>: no coordinates give the \<^verbatim>\<open>NULL\<close> pointer.\<close>

definition ccoords :: "uint list \<Rightarrow> hsize_t list option" where
  "ccoords args = (if length args = 0 then None else Some (map ucast args))"

text \<open>\<^verbatim>\<open>Hyperslab.Ref\<close> and the six methods that fix its operator.\<close>

definition Hyperslab_Ref :: "env \<Rightarrow> hid \<Rightarrow> OP \<Rightarrow> uint list \<Rightarrow> uint list \<Rightarrow> uint list \<Rightarrow> uint list \<Rightarrow> log \<Rightarrow> error option \<times> log" where
  "Hyperslab_Ref e h selector start stride count block l =
     (let (r, l') = ccall e (H5Sselect_hyperslab h selector (ccoords start) (ccoords stride)
                               (ccoords count) (ccoords block)) l
      in (Status (sprintf e) r ''selecting hyperslab'' [], l'))"

definition Hyperslab_Set :: "env \<Rightarrow> hid \<Rightarrow> uint list \<Rightarrow> uint list \<Rightarrow> uint list \<Rightarrow> uint list \<Rightarrow> log \<Rightarrow> error option \<times> log" where
  "Hyperslab_Set e h start stride count block = Hyperslab_Ref e h SET start stride count block"

definition Hyperslab_Union :: "env \<Rightarrow> hid \<Rightarrow> uint list \<Rightarrow> uint list \<Rightarrow> uint list \<Rightarrow> uint list \<Rightarrow> log \<Rightarrow> error option \<times> log" where
  "Hyperslab_Union e h start stride count block = Hyperslab_Ref e h OR_op start stride count block"

definition Hyperslab_XUnion :: "env \<Rightarrow> hid \<Rightarrow> uint list \<Rightarrow> uint list \<Rightarrow> uint list \<Rightarrow> uint list \<Rightarrow> log \<Rightarrow> error option \<times> log" where
  "Hyperslab_XUnion e h start stride count block = Hyperslab_Ref e h XOR_op start stride count block"

definition Hyperslab_Inter :: "env \<Rightarrow> hid \<Rightarrow> uint list \<Rightarrow> uint list \<Rightarrow> uint list \<Rightarrow> uint list \<Rightarrow> log \<Rightarrow> error option \<times> log" where
  "Hyperslab_Inter e h start stride count block = Hyperslab_Ref e h AND_op start stride count block"

definition Hyperslab_Neg :: "env \<Rightarrow> hid \<Rightarrow> uint list \<Rightarrow> uint list \<Rightarrow> uint list \<Rightarrow> uint list \<Rightarrow> log \<Rightarrow> error option \<times> log" where
  "Hyperslab_Neg e h start stride count block = Hyperslab_Ref e h OR_op start stride count block"

definition Hyperslab_Excl :: "env \<Rightarrow> hid \<Rightarrow> uint list \<Rightarrow> uint list \<Rightarrow> uint list \<Rightarrow> uint list \<Rightarrow> log \<Rightarrow> error option \<times> log" where
  "Hyperslab_Excl e h start stride count block = Hyperslab_Ref e h OR_op start stride count block"

text \<open>
  \<^verbatim>\<open>Points.Ref\<close>.  The two nested loops write \<open>c[k]\<close> and advance \<open>k\<close>; a write
  at \<open>k \<ge> len(c)\<close> is Go's index-out-of-range panic (\<open>None\<close>).
\<close>

fun flatten_point :: "hsize_t list \<Rightarrow> nat \<Rightarrow> uint list \<Rightarrow> (hsize_t list \<times> nat) option" where
  "flatten_point c k [] = Some (c, k)"
| "flatten_point c k (x # xs) =
     (if k < length c then flatten_point (c[k := ucast x]) (Suc k) xs else None)"

fun flatten_coords :: "hsize_t list \<Rightarrow> nat \<Rightarrow> uint list list \<Rightarrow> (hsize_t list \<times> nat) option" where
  "flatten_coords c k [] = Some (c, k)"
| "flatten_coords c k (pt # pts) =
     (case flatten_point c k pt of
        None \<Rightarrow> None
      | Some (c', k') \<Rightarrow> flatten_coords c' k' pts)"

definition Points_Ref :: "env \<Rightarrow> hid \<Rightarrow> OP \<Rightarrow> uint list list \<Rightarrow> log \<Rightarrow> error option res \<times> log" where
  "Points_Ref e pt op coords l =
     (case coords of
        [] \<Rightarrow> (Ret None, l)
      | first # _ \<Rightarrow>
          (case flatten_coords (replicate (length coords * length first) 0) 0 coords of
             None \<Rightarrow> (Panic, l)
           | Some (c, k) \<Rightarrow>
               (if c = [] then (Panic, l)
                else (let (r, l') = ccall e (H5Sselect_elements pt op (of_nat (length coords)) c) l
                      in (Ret (Status (sprintf e) r ''selecting point'' []), l')))))"

section \<open>Datatypes (package h5t)\<close>

type_synonym Datatype = hid

definition try_t :: "env \<Rightarrow> Datatype \<Rightarrow> string \<Rightarrow> arg list \<Rightarrow> Datatype \<times> error option" where
  "try_t e id' ctx args = (id', Status (sprintf e) id' (sprintf e ctx args) [])"

definition DefaultAccess :: "env \<Rightarrow> hid" where
  "DefaultAccess e = H5P_DEFAULT e"

definition Close :: "env \<Rightarrow> Datatype \<Rightarrow> log \<Rightarrow> error option \<times> log" where
  "Close e t l = (let (r, l') = ccall e (H5Tclose t) l in (Status (sprintf e) r ''closing datatype'' [], l'))"

definition Copy :: "env \<Rightarrow> Datatype \<Rightarrow> log \<Rightarrow> (Datatype \<times> error option) \<times> log" where
  "Copy e t l = (let (r, l') = ccall e (H5Tcopy t) l in (try_t e r ''copying datatype'' [], l'))"

definition SetSize :: "env \<Rightarrow> Datatype \<Rightarrow> int \<Rightarrow> log \<Rightarrow> error option \<times> log" where
  "SetSize e t bytes l =
     (let (r, l') = ccall e (H5Tset_size t (word_of_int bytes)) l
      in (Status (sprintf e) r ''setting bytes size'' [], l'))"

definition SetSign :: "env \<Rightarrow> Datatype \<Rightarrow> bool \<Rightarrow> log \<Rightarrow> error option \<times> log" where
  "SetSign e t is_signed l =
     (let s = (if is_signed then H5T_SGN_2 else H5T_SGN_NONE);
          (r, l') = ccall e (H5Tset_sign t s) l
      in (Status (sprintf e) r ''setting signedness'' [], l'))"

text \<open>\<^verbatim>\<open>Datatype.Encode\<close>, written as \<^verbatim>\<open>h5s.Encode\<close> is.\<close>

definition Encode :: "env \<Rightarrow> Datatype \<Rightarrow> log \<Rightarrow> (byte list option \<times> error option) res \<times> log" where
  "Encode e t l =
     (let c1 = H5Tencode t None 0;
          (r1, l1) = ccall e c1 l;
          sze = out_size e l c1
      in case Status (sprintf e) r1 ''computing encoding size'' [] of
           Some err \<Rightarrow> (Ret (None, Some err), l1)
         | None \<Rightarrow>
             (if sint sze < 0 then (Panic, l1)
              else (let bin = replicate (unat sze) (0 :: byte)
                    in if bin = [] then (Panic, l1)
                       else (let c2 = H5Tencode t (Some bin) sze;
                                 (r2, l2) = ccall e c2 l1
                             in (Ret (Some (written bin (out_bytes e l1 c2)),
                                      Status (sprintf e) r2 ''encoding datatype'' []), l2)))))"

definition Create :: "env \<Rightarrow> Class \<Rightarrow> int \<Rightarrow> log \<Rightarrow> (Datatype \<times> error option) \<times> log" where
  "Create e base bytes l =
     (let (r, l') = ccall e (H5Tcreate base (word_of_int bytes)) l
      in (try_t e r ''creating datatype'' [], l'))"

text \<open>
  \<^verbatim>\<open>Open\<close>: the location is an interface value; calling \<^verbatim>\<open>At()\<close> on the \<^verbatim>\<open>nil\<close>
  location (\<open>None\<close>) panics.
\<close>

definition Open :: "env \<Rightarrow> hid option \<Rightarrow> string \<Rightarrow> hid \<Rightarrow> log \<Rightarrow> (Datatype \<times> error option) res \<times> log" where
  "Open e from name access l =
     (case from of
        None \<Rightarrow> (Panic, l)
      | Some at \<Rightarrow>
          (let (r, l') = ccall e (H5Topen at name access) l
           in (Ret (try_t e r ''opening saved datatype %s'' [AStr name]), l')))"

text \<open>
  \<^verbatim>\<open>h5t.Decode\<close>.  The result of the \<^verbatim>\<open>try\<close> call on the non-empty branch is not
  returned by the source: control falls through to the final \<^verbatim>\<open>return\<close>.
\<close>

definition h5t_Decode :: "env \<Rightarrow> byte list \<Rightarrow> log \<Rightarrow> (Datatype \<times> error option) \<times> log" where
  "h5t_Decode e bin l =
     (let l1 = (if length bin > 0 then
                  (let (r, l') = ccall e (H5Tdecode bin) l;
                       discarded = try_t e r ''decoding encoded datatype'' []
                   in l')
                else l)
      in ((- 1, Some (Errorf ''Empty array'' [])), l1))"

subsection \<open>Native Go types\<close>

text \<open>
  The integer constructors \<^verbatim>\<open>Int8\<close> to \<^verbatim>\<open>Uint64\<close> share one body: copy a native
  handle, set its size, set its sign, returning at the first error.
\<close>

definition sized_int :: "env \<Rightarrow> native \<Rightarrow> int \<Rightarrow> bool \<Rightarrow> log \<Rightarrow> (Datatype \<times> error option) \<times> log" where
  "sized_int e n bytes is_signed l =
     (let ((i, err), l1) = Copy e (native e n) l
      in if err \<noteq> None then ((i, err), l1)
         else (let (err, l2) = SetSize e i bytes l1
               in if err \<noteq> None then ((i, err), l2)
                  else (let (err, l3) = SetSign e i is_signed l2 in ((i, err), l3))))"

definition Int8 :: "env \<Rightarrow> log \<Rightarrow> (Datatype \<times> error option) \<times> log" where
  "Int8 e = sized_int e NCHAR 1 True"

definition Int16 :: "env \<Rightarrow> log \<Rightarrow> (Datatype \<times> error option) \<times> log" where
  "Int16 e = sized_int e NSHORT 2 True"

definition Int32 :: "env \<Rightarrow> log \<Rightarrow> (Datatype \<times> error option) \<times> log" where
  "Int32 e = sized_int e NINT 4 True"

definition Int64 :: "env \<Rightarrow> log \<Rightarrow> (Datatype \<times> error option) \<times> log" where
  "Int64 e = sized_int e NLONG 8 True"

definition Uint8 :: "env \<Rightarrow> log \<Rightarrow> (Datatype \<times> error option) \<times> log" where
  "Uint8 e = sized_int e NUCHAR 1 False"

definition Uint16 :: "env \<Rightarrow> log \<Rightarrow> (Datatype \<times> error option) \<times> log" where
  "Uint16 e = sized_int e NUSHORT 2 False"

definition Uint32 :: "env \<Rightarrow> log \<Rightarrow> (Datatype \<times> error option) \<times> log" where
  "Uint32 e = sized_int e NUINT 4 False"

definition Uint64 :: "env \<Rightarrow> log \<Rightarrow> (Datatype \<times> error option) \<times> log" where
  "Uint64 e = sized_int e NULONG 8 False"

definition sized_float :: "env \<Rightarrow> native \<Rightarrow> int \<Rightarrow> log \<Rightarrow> (Datatype \<times> error option) \<times> log" where
  "sized_float e n bytes l =
     (let ((f, err), l1) = Copy e (native e n) l
      in if err \<noteq> None then ((f, err), l1)
         else (let (err, l2) = SetSize e f bytes l1 in ((f, err), l2)))"

definition Float32 :: "env \<Rightarrow> log \<Rightarrow> (Datatype \<times> error option) \<times> log" where
  "Float32 e = sized_float e NFLOAT 4"

definition Float64 :: "env \<Rightarrow> log \<Rightarrow> (Datatype \<times> error option) \<times> log" where
  "Float64 e = sized_float e NDOUBLE 8"

definition Bool :: "env \<Rightarrow> log \<Rightarrow> (Datatype \<times> error option) \<times> log" where
  "Bool e = Copy e (native e NBOOL)"

subsection \<open>Structures, strings, lists and arrays\<close>

record Field =
  Name :: string
  Type :: Datatype
  Offset :: int

fun Struct_insert :: "env \<Rightarrow> Datatype \<Rightarrow> Field list \<Rightarrow> log \<Rightarrow> (Datatype \<times> error option) \<times> log" where
  "Struct_insert e T [] l = ((T, None), l)"
| "Struct_insert e T (fld # flds) l =
     (let (r, l') = ccall e (H5Tinsert T (Name fld) (word_of_int (Offset fld)) (Type fld)) l;
          err = Status (sprintf e) r ''setting field %s of structure'' [AStr (Name fld)]
      in if err \<noteq> None then ((T, err), l') else Struct_insert e T flds l')"

definition Struct :: "env \<Rightarrow> int \<Rightarrow> Field list \<Rightarrow> log \<Rightarrow> (Datatype \<times> error option) \<times> log" where
  "Struct e fullsize flds l =
     (let ((T, err), l1) = Create e COMPOUND fullsize l
      in if err \<noteq> None then ((T, err), l1) else Struct_insert e T flds l1)"

definition Complex64 :: "env \<Rightarrow> log \<Rightarrow> (Datatype \<times> error option) \<times> log" where
  "Complex64 e l =
     (let ((f, err), l1) = Float32 e l
      in if err \<noteq> None then ((- 1, err), l1)
         else (let (r, l2) = Struct e 8 [\<lparr>Name = ''re'', Type = f, Offset = 0\<rparr>,
                                         \<lparr>Name = ''im'', Type = f, Offset = 4\<rparr>] l1
               in (r, snd (Close e f l2))))"

definition Complex128 :: "env \<Rightarrow> log \<Rightarrow> (Datatype \<times> error option) \<times> log" where
  "Complex128 e l =
     (let ((f, err), l1) = Float64 e l
      in if err \<noteq> None then ((- 1, err), l1)
         else (let (r, l2) = Struct e 16 [\<lparr>Name = ''re'', Type = f, Offset = 0\<rparr>,
                                          \<lparr>Name = ''im'', Type = f, Offset = 8\<rparr>] l1
               in (r, snd (Close e f l2))))"

definition varstring :: "env \<Rightarrow> log \<Rightarrow> (Datatype \<times> error option) \<times> log" where
  "varstring e l =
     (let ((T, err), l1) = Copy e (native e VSTRING) l
      in if err \<noteq> None then ((T, err), l1)
         else (let (err, l2) = SetSize e T (VARIABLE e) l1 in ((T, err), l2)))"

definition String :: "env \<Rightarrow> int \<Rightarrow> bool \<Rightarrow> log \<Rightarrow> (Datatype \<times> error option) \<times> log" where
  "String e len utf8 l =
     (let ((T, err), l1) = (if len < 0 then varstring e l else Create e STRING len l)
      in if err \<noteq> None then ((T, err), l1)
         else if utf8 then
           (let (r, l2) = ccall e (H5Tset_cset T H5T_CSET_UTF8) l1
            in ((T, Status (sprintf e) r ''setting UTF-8 encoding'' []), l2))
         else
           (let (r, l2) = ccall e (H5Tset_cset T H5T_CSET_ASCII) l1
            in ((T, Status (sprintf e) r ''setting ASCII encoding'' []), l2)))"

definition List :: "env \<Rightarrow> Datatype \<Rightarrow> log \<Rightarrow> (Datatype \<times> error option) \<times> log" where
  "List e T l =
     (let (r, l') = ccall e (H5Tvlen_create T) l
      in (try_t e r ''creating varlength array datatype'' [], l'))"

text \<open>\<^verbatim>\<open>NDarray\<close>: \<^verbatim>\<open>&cdims[0]\<close> panics when no dimension is given.\<close>

definition NDarray :: "env \<Rightarrow> Datatype \<Rightarrow> uint list \<Rightarrow> log \<Rightarrow> (Datatype \<times> error option) res \<times> log" where
  "NDarray e T dims l =
     (let rank = length dims;
          cdims = map ucast dims :: hsize_t list
      in if cdims = [] then (Panic, l)
         else (let (r, l') = ccall e (H5Tarray_create2 T (of_nat rank) cdims) l
               in (Ret (try_t e r ''creating NDarray datatype'' []), l')))"

subsection \<open>Enumerations\<close>

text \<open>
  The interface \<^verbatim>\<open>Enum\<close> has four implementations, one for each width of the
  underlying integer; each embeds the handle of its datatype.
\<close>

datatype Enum = enum8 Datatype | enum16 Datatype | enum32 Datatype | enum64 Datatype


definition mkenum :: "env \<Rightarrow> hid \<Rightarrow> log \<Rightarrow> (Datatype \<times> error option) \<times> log" where
  "mkenum e T l = (let (r, l') = ccall e (H5Tenum_create T) l in (try_t e r ''creating enum'' [], l'))"

text \<open>\<^verbatim>\<open>NewEnum\<close>; \<open>None\<close> is the \<^verbatim>\<open>nil\<close> interface value.\<close>

definition NewEnum :: "env \<Rightarrow> 8 word \<Rightarrow> log \<Rightarrow> (Enum option \<times> error option) \<times> log" where
  "NewEnum e size' l =
     (if size' = 8 then (let ((T, err), l') = mkenum e (native e N8) l in ((Some (enum8 T), err), l'))
      else if size' = 16 then (let ((T, err), l') = mkenum e (native e N16) l in ((Some (enum16 T), err), l'))
      else if size' = 32 then (let ((T, err), l') = mkenum e (native e N32) l in ((Some (enum32 T), err), l'))
      else if size' = 64 then (let ((T, err), l') = mkenum e (native e N64) l in ((Some (enum64 T), err), l'))
      else ((None, Some (Errorf ''Invalid size: %v'' [AInt (uint size')])), l))"







subsection \<open>Deriving a datatype from a Go type by reflection\<close>

text \<open>
  A reflected Go type (\<^verbatim>\<open>reflect.Type\<close>), as far as \<^verbatim>\<open>parse\<close> inspects it: its kind,
  the length of an array, the element type, and of a structure its size and its
  fields in declaration order.  A field carries its name, the values of its
  \<^verbatim>\<open>hdf\<close> and \<^verbatim>\<open>hdftype\<close> tags (empty when the tag is absent), its type and its
  offset.  Types are finite trees: a type that refers to itself, on which the
  walk below would not end, is not a value of \<open>rtype\<close>.
\<close>

datatype basic =
    invalid_t | bool_t | int_t | int8_t | int16_t | int32_t | int64_t
  | uint_t | uint8_t | uint16_t | uint32_t | uint64_t | uintptr_t
  | float32_t | float64_t | complex64_t | complex128_t | string_t
  | unsafe_Pointer

datatype rtype =
    Prim basic
  | ArrayT nat rtype
  | ChanT rtype
  | FuncT
  | InterfaceT
  | MapT rtype rtype
  | PtrT rtype
  | SliceT rtype
  | StructT nat "sfield list"
and sfield =
    SField (fname: string) (hdf_tag: string) (hdftype_tag: string) (ftyp: rtype) (foffset: nat)

fun basic_kind :: "basic \<Rightarrow> kind" where
  "basic_kind invalid_t = reflect_Invalid"
| "basic_kind bool_t = reflect_Bool"
| "basic_kind int_t = reflect_Int"
| "basic_kind int8_t = reflect_Int8"
| "basic_kind int16_t = reflect_Int16"
| "basic_kind int32_t = reflect_Int32"
| "basic_kind int64_t = reflect_Int64"
| "basic_kind uint_t = reflect_Uint"
| "basic_kind uint8_t = reflect_Uint8"
| "basic_kind uint16_t = reflect_Uint16"
| "basic_kind uint32_t = reflect_Uint32"
| "basic_kind uint64_t = reflect_Uint64"
| "basic_kind uintptr_t = reflect_Uintptr"
| "basic_kind float32_t = reflect_Float32"
| "basic_kind float64_t = reflect_Float64"
| "basic_kind complex64_t = reflect_Complex64"
| "basic_kind complex128_t = reflect_Complex128"
| "basic_kind string_t = reflect_String"
| "basic_kind unsafe_Pointer = reflect_UnsafePointer"

fun Kind :: "rtype \<Rightarrow> kind" where
  "Kind (Prim b) = basic_kind b"
| "Kind (ArrayT n elt) = reflect_Array"
| "Kind (ChanT elt) = reflect_Chan"
| "Kind FuncT = reflect_Func"
| "Kind InterfaceT = reflect_Interface"
| "Kind (MapT k v) = reflect_Map"
| "Kind (PtrT elt) = reflect_Ptr"
| "Kind (SliceT elt) = reflect_Slice"
| "Kind (StructT sz flds) = reflect_Struct"

definition atomic :: "env \<Rightarrow> kind \<Rightarrow> log \<Rightarrow> (Datatype \<times> error option) \<times> log" where
  "atomic e k l =
     (case k of
        reflect_Int8 \<Rightarrow> Int8 e l
      | reflect_Int16 \<Rightarrow> Int16 e l
      | reflect_Int32 \<Rightarrow> Int32 e l
      | reflect_Int64 \<Rightarrow> Int64 e l
      | reflect_Uint8 \<Rightarrow> Uint8 e l
      | reflect_Uint16 \<Rightarrow> Uint16 e l
      | reflect_Uint32 \<Rightarrow> Uint32 e l
      | reflect_Uint64 \<Rightarrow> Uint64 e l
      | reflect_Float32 \<Rightarrow> Float32 e l
      | reflect_Float64 \<Rightarrow> Float64 e l
      | reflect_Complex64 \<Rightarrow> Complex64 e l
      | reflect_Complex128 \<Rightarrow> Complex128 e l
      | reflect_Bool \<Rightarrow> Bool e l
      | reflect_String \<Rightarrow> String e (- 1) True l
      | _ \<Rightarrow> ((- 1, Some (Errorf ''Non-atomic kind: %s'' [AKind k])), l))"

text \<open>
  The deferred \<^verbatim>\<open>Close\<close> calls of a function run when it returns or panics, the
  last deferred first; their errors are dropped.
\<close>

fun closes :: "env \<Rightarrow> Datatype list \<Rightarrow> log \<Rightarrow> log" where
  "closes e [] l = l"
| "closes e (T # Ts) l = closes e Ts (snd (Close e T l))"

text \<open>How the field loop of \<^verbatim>\<open>structure\<close> ends.\<close>

datatype loop_exit = Done | Failed error | Panicked

lemma size_ftyp: "size (ftyp fld) < size fld"
  by (cases fld) simp

text \<open>
  \<^verbatim>\<open>parse\<close>, \<^verbatim>\<open>array\<close>, \<^verbatim>\<open>slice\<close> and \<^verbatim>\<open>structure\<close>.  \<open>array_loop\<close> is the loop of
  \<^verbatim>\<open>array\<close> that collects the extents of directly nested arrays, from the state
  \<open>(dims, elt)\<close>, followed by the rest of \<^verbatim>\<open>array\<close>; \<open>structure_loop\<close> is the loop
  of \<^verbatim>\<open>structure\<close> over the fields not yet visited, with the fields collected so
  far.  \<^verbatim>\<open>Type.Elem()\<close> panics on an interface type, \<^verbatim>\<open>Type.Len()\<close> on a type that
  is not an array, \<^verbatim>\<open>Type.NumField()\<close> on a type that is not a structure.
\<close>

function (sequential)
      parse :: "env \<Rightarrow> hid option \<Rightarrow> rtype \<Rightarrow> log \<Rightarrow> (Datatype \<times> error option) res \<times> log"
  and array_loop :: "env \<Rightarrow> hid option \<Rightarrow> uint list \<Rightarrow> rtype \<Rightarrow> log \<Rightarrow> (Datatype \<times> error option) res \<times> log"
  and structure_loop :: "env \<Rightarrow> hid option \<Rightarrow> sfield list \<Rightarrow> Field list \<Rightarrow> log \<Rightarrow> (Field list \<times> loop_exit) \<times> log"
where
  "parse e ctxt T l =
     (case T of
        ArrayT n elt \<Rightarrow> array_loop e ctxt [of_nat n] elt l
      | SliceT elt \<Rightarrow>
          (case parse e ctxt elt l of
             (Panic, l1) \<Rightarrow> (Panic, l1)
           | (Ret (T', Some err), l1) \<Rightarrow> (Ret (- 1, Some err), l1)
           | (Ret (T', None), l1) \<Rightarrow>
               (let (r, l2) = List e T' l1 in (Ret r, snd (Close e T' l2))))
      | MapT k v \<Rightarrow> (Ret (- 1, Some (Errorf ''Maps are not serializable'' [])), l)
      | StructT sz flds \<Rightarrow>
          (case structure_loop e ctxt flds [] l of
             ((fields', Panicked), l1) \<Rightarrow> (Panic, closes e (rev (map Type fields')) l1)
           | ((fields', Failed err), l1) \<Rightarrow>
               (Ret (- 1, Some err), closes e (rev (map Type fields')) l1)
           | ((fields', Done), l1) \<Rightarrow>
               (let (r, l2) = Struct e (int sz) fields' l1
                in (Ret r, closes e (rev (map Type fields')) l2)))
      | PtrT elt \<Rightarrow> parse e ctxt elt l
      | InterfaceT \<Rightarrow> (Panic, l)
      | _ \<Rightarrow>
          (if Kind T \<in> {reflect_Chan, reflect_Func, reflect_Invalid} then
             (Ret (- 1, Some (Errorf ''%s not HDF serializable'' [AKind (Kind T)])), l)
           else if Kind T \<in> {reflect_Uintptr, reflect_UnsafePointer} then
             (Ret (- 1, Some (Errorf ''Unsafe ptr not supported'' [])), l)
           else (let (r, l') = atomic e (Kind T) l in (Ret r, l'))))"

| "array_loop e loc dims elt l =
     (case elt of
        ArrayT n elt' \<Rightarrow> array_loop e loc (dims @ [of_nat n]) elt' l
      | _ \<Rightarrow>
          (case parse e loc elt l of
             (Panic, l1) \<Rightarrow> (Panic, l1)
           | (Ret (T, Some err), l1) \<Rightarrow> (Ret (- 1, Some err), l1)
           | (Ret (T, None), l1) \<Rightarrow>
               (let (r, l2) = NDarray e T dims l1 in (r, snd (Close e T l2)))))"

| "structure_loop e lc [] fields' l = ((fields', Done), l)"
| "structure_loop e lc (fld # rest) fields' l =
     (if hdf_tag fld = ''ignore'' then structure_loop e lc rest fields' l
      else (let fname' = (if hdf_tag fld \<noteq> '''' then hdf_tag fld else fname fld)
            in case (if hdftype_tag fld \<noteq> '''' then Open e lc (hdftype_tag fld) (DefaultAccess e) l
                     else parse e lc (ftyp fld) l) of
                 (Panic, l1) \<Rightarrow> ((fields', Panicked), l1)
               | (Ret (ftype, Some err), l1) \<Rightarrow> ((fields', Failed err), l1)
               | (Ret (ftype, None), l1) \<Rightarrow>
                   structure_loop e lc rest
                     (fields' @ [\<lparr>Name = fname', Type = ftype, Offset = int (foffset fld)\<rparr>]) l1))"
  by pat_completeness auto

termination
  apply (relation "measure (\<lambda>x. case x of
            Inl (e, c, T, l) \<Rightarrow> 2 * size T
          | Inr (Inl (e, c, dims, elt, l)) \<Rightarrow> 2 * size elt + 1
          | Inr (Inr (e, c, flds, acc, l)) \<Rightarrow> 2 * size_list size flds)")
  apply (auto simp: less_Suc_eq_le)
  subgoal for fld rest using size_ftyp [of fld] by linarith
  done

declare parse.simps [simp del] array_loop.simps [simp del]

text \<open>
  The bodies of \<^verbatim>\<open>array\<close>, \<^verbatim>\<open>slice\<close> and \<^verbatim>\<open>structure\<close> are the branches of \<open>parse\<close>
  above; as functions of their own they are defined on every type, and panic
  (\<^verbatim>\<open>Type.Len()\<close>, \<^verbatim>\<open>Type.Elem()\<close>, \<^verbatim>\<open>Type.NumField()\<close>) on a type of another kind.
\<close>

definition array :: "env \<Rightarrow> hid option \<Rightarrow> rtype \<Rightarrow> log \<Rightarrow> (Datatype \<times> error option) res \<times> log" where
  "array e loc v l =
     (case v of
        ArrayT n elt \<Rightarrow> array_loop e loc [of_nat n] elt l
      | _ \<Rightarrow> (Panic, l))"

definition slice :: "env \<Rightarrow> hid option \<Rightarrow> rtype \<Rightarrow> log \<Rightarrow> (Datatype \<times> error option) res \<times> log" where
  "slice e loc v l =
     (case v of
        SliceT elt \<Rightarrow>
          (case parse e loc elt l of
             (Panic, l1) \<Rightarrow> (Panic, l1)
           | (Ret (T, Some err), l1) \<Rightarrow> (Ret (- 1, Some err), l1)
           | (Ret (T, None), l1) \<Rightarrow>
               (let (r, l2) = List e T l1 in (Ret r, snd (Close e T l2))))
      | _ \<Rightarrow> (Panic, l))"

definition "structure" :: "env \<Rightarrow> hid option \<Rightarrow> rtype \<Rightarrow> log \<Rightarrow> (Datatype \<times> error option) res \<times> log" where
  "structure e lc v l =
     (case v of
        StructT sz flds \<Rightarrow>
          (case structure_loop e lc flds [] l of
             ((fields', Panicked), l1) \<Rightarrow> (Panic, closes e (rev (map Type fields')) l1)
           | ((fields', Failed err), l1) \<Rightarrow>
               (Ret (- 1, Some err), closes e (rev (map Type fields')) l1)
           | ((fields', Done), l1) \<Rightarrow>
               (let (r, l2) = Struct e (int sz) fields' l1
                in (Ret r, closes e (rev (map Type fields')) l2)))
      | _ \<Rightarrow> (Panic, l))"

text \<open>
  \<^verbatim>\<open>Parse\<close>: the object is \<^verbatim>\<open>nil\<close> (\<open>None\<close>) or a value, of which only the type
  matters.
\<close>

definition Parse :: "env \<Rightarrow> rtype option \<Rightarrow> hid option \<Rightarrow> log \<Rightarrow> (Datatype \<times> error option) res \<times> log" where
  "Parse e obj ctxt l =
     (case obj of
        None \<Rightarrow> (Ret (- 1, Some (Errorf ''Nothing provided'' [])), l)
      | Some T \<Rightarrow> parse e ctxt T l)"

subsection \<open>What the walk meets\<close>

text \<open>
  \<open>encounters e ctxt T l\<close>: the depth-first walk of \<open>parse\<close> over \<open>T\<close>, started after
  the calls \<open>l\<close>, comes to a type it cannot serialize (a map, a channel, a
  function, an invalid type, a \<^verbatim>\<open>uintptr\<close> or an unsafe pointer) or to a field whose
  \<^verbatim>\<open>hdftype\<close> lookup in the location fails.  The walk skips ignored fields, does
  not look into the declared type of a field with an \<^verbatim>\<open>hdftype\<close> tag, and goes on
  to the next field only when the field before it was derived.
\<close>

function (sequential)
      encounters :: "env \<Rightarrow> hid option \<Rightarrow> rtype \<Rightarrow> log \<Rightarrow> bool"
  and encounters_fields :: "env \<Rightarrow> hid option \<Rightarrow> sfield list \<Rightarrow> log \<Rightarrow> bool"
where
  "encounters e ctxt T l =
     (case T of
        ArrayT n elt \<Rightarrow> encounters e ctxt elt l
      | SliceT elt \<Rightarrow> encounters e ctxt elt l
      | PtrT elt \<Rightarrow> encounters e ctxt elt l
      | StructT sz flds \<Rightarrow> encounters_fields e ctxt flds l
      | InterfaceT \<Rightarrow> False
      | _ \<Rightarrow> Kind T \<in> {reflect_Map, reflect_Chan, reflect_Func, reflect_Invalid,
                          reflect_Uintptr, reflect_UnsafePointer})"
| "encounters_fields e ctxt [] l = False"
| "encounters_fields e ctxt (fld # rest) l =
     (if hdf_tag fld = ''ignore'' then encounters_fields e ctxt rest l
      else if hdftype_tag fld \<noteq> '''' then
        (case ctxt of
           None \<Rightarrow> False
         | Some at \<Rightarrow>
             (let c = H5Topen at (hdftype_tag fld) (DefaultAccess e)
              in ret e l c < 0 \<or> encounters_fields e ctxt rest (l @ [c])))
      else
        (encounters e ctxt (ftyp fld) l \<or>
         (case parse e ctxt (ftyp fld) l of
            (Ret (ftype, None), l1) \<Rightarrow> encounters_fields e ctxt rest l1
          | _ \<Rightarrow> False)))"
  by pat_completeness auto

termination
  apply (relation "measure (\<lambda>x. case x of
            Inl (e, c, T, l) \<Rightarrow> 2 * size T
          | Inr (e, c, flds, l) \<Rightarrow> 2 * size_list size flds)")
  apply (auto simp: less_Suc_eq_le)
  subgoal for fld rest using size_ftyp [of fld] by linarith
  done

declare encounters.simps [simp del]

text \<open>
  An engine for examples: every call returns the handle or status 5, except that
  no named type is committed (\<^verbatim>\<open>H5Topen\<close> returns \<open>-1\<close>); the formatter is used on
  formats without verbs only, which it returns unchanged.
\<close>

definition plain_engine :: env where
  "plain_engine =
     \<lparr>ret = (\<lambda>l c. case c of H5Topen at name access \<Rightarrow> - 1 | _ \<Rightarrow> 5),
      out_size = (\<lambda>l c. 0),
      out_bytes = (\<lambda>l c. []),
      sprintf = (\<lambda>f args. f),
      native = (\<lambda>n. 1),
      H5S_UNLIMITED = - 1,
      VARIABLE = - 1,
      H5P_DEFAULT = 0\<rparr>"

section \<open>Predicates used to state the properties\<close>





section \<open>Status codes and errors\<close>

lemma sublist_context_Error: "sublist (context' s) (status_Error s)"
  unfolding status_Error_def by (rule sublist_appendI)

lemma sublist_num_Error: "sublist (itoa (num s)) (status_Error s)"
  unfolding status_Error_def sublist_def
  by (rule exI [of _ "''Error while '' @ context' s @ '' [status: ''"], rule exI [of _ "'']''"]) simp

text \<open>
  Claim C9.  \<^verbatim>\<open>core.Status\<close> returns \<^verbatim>\<open>nil\<close> exactly when the code is not negative.
  For a negative code it returns a \<^verbatim>\<open>status\<close> error that carries the code and the
  formatted context string, and both occur in the text of its \<^verbatim>\<open>Error()\<close> message.
\<close>

theorem Status_nil_iff_nonnegative:
  "(Status sp code ctx args = None \<longleftrightarrow> 0 \<le> code) \<and>
   (code < 0 \<longrightarrow>
      (\<exists>s. Status sp code ctx args = Some (StatusError s) \<and> num s = code \<and>
           context' s = sp ctx args \<and>
           sublist (sp ctx args) (status_Error s) \<and> sublist (itoa code) (status_Error s)))"
proof -
  have "code < 0 \<Longrightarrow> ?thesis"
    using sublist_context_Error [of "\<lparr>num = code, context' = sp ctx args\<rparr>"]
          sublist_num_Error [of "\<lparr>num = code, context' = sp ctx args\<rparr>"]
    by (simp add: Status_def)
  moreover have "\<not> code < 0 \<Longrightarrow> ?thesis" by (simp add: Status_def)
  ultimately show ?thesis by blast
qed

theorem Status_nil_iff_nonnegative_witness:
  "(- 1 :: int) < 0 \<and>
   (\<exists>s. Status (\<lambda>f a. f) (- 1) ''closing dataspace'' [] = Some (StatusError s) \<and> num s = - 1 \<and>
        context' s = ''closing dataspace'' \<and>
        sublist ''closing dataspace'' (status_Error s) \<and> sublist (itoa (- 1)) (status_Error s)) \<and>
   status_Error \<lparr>num = - 1, context' = ''closing dataspace''\<rparr> =
     ''Error while closing dataspace [status: -1]''"
proof -
  have msg: "status_Error \<lparr>num = - 1, context' = ''closing dataspace''\<rparr> =
               ''Error while closing dataspace [status: -1]''"
    by code_simp
  show ?thesis
    using Status_nil_iff_nonnegative [of "\<lambda>f a. f" "- 1" "''closing dataspace''" "[]"] msg
    by simp
qed

section \<open>Dataspaces\<close>

text \<open>
  Claim C2.  \<^verbatim>\<open>Set\<close>, \<^verbatim>\<open>Union\<close>, \<^verbatim>\<open>XUnion\<close> and \<^verbatim>\<open>Inter\<close> pass \<^verbatim>\<open>SET\<close>, \<^verbatim>\<open>OR\<close>, \<^verbatim>\<open>XOR\<close> and
  \<^verbatim>\<open>AND\<close> to \<^verbatim>\<open>Ref\<close>.  \<^verbatim>\<open>Neg\<close> and \<^verbatim>\<open>Excl\<close>, documented as the operators \<^verbatim>\<open>NOTA\<close> and
  \<^verbatim>\<open>NOTB\<close>, pass \<^verbatim>\<open>OR\<close> as well: the call that reaches the library for \<^verbatim>\<open>Neg\<close> on
  start 0, stride 1, count 1, block 1 is the call of \<^verbatim>\<open>Union\<close>.
\<close>

theorem Hyperslab_Neg_Excl_pass_OR:
  "Hyperslab_Set e h start stride count block l = Hyperslab_Ref e h SET start stride count block l \<and>
   Hyperslab_Union e h start stride count block l = Hyperslab_Ref e h OR_op start stride count block l \<and>
   Hyperslab_XUnion e h start stride count block l = Hyperslab_Ref e h XOR_op start stride count block l \<and>
   Hyperslab_Inter e h start stride count block l = Hyperslab_Ref e h AND_op start stride count block l \<and>
   Hyperslab_Neg e h start stride count block l = Hyperslab_Ref e h OR_op start stride count block l \<and>
   Hyperslab_Excl e h start stride count block l = Hyperslab_Ref e h OR_op start stride count block l \<and>
   snd (Hyperslab_Neg e h [0] [1] [1] [1] l) =
     l @ [H5Sselect_hyperslab h OR_op (Some [0]) (Some [1]) (Some [1]) (Some [1])] \<and>
   snd (Hyperslab_Excl e h [0] [1] [1] [1] l) =
     l @ [H5Sselect_hyperslab h OR_op (Some [0]) (Some [1]) (Some [1]) (Some [1])] \<and>
   OR_op \<noteq> NOTA \<and> OR_op \<noteq> NOTB"
  by (simp add: Hyperslab_Set_def Hyperslab_Union_def Hyperslab_XUnion_def Hyperslab_Inter_def
        Hyperslab_Neg_def Hyperslab_Excl_def Hyperslab_Ref_def ccall_def ccoords_def)

lemma max_entry_negative: "m < 0 \<Longrightarrow> max_entry e m = 0xffffffff AND H5S_UNLIMITED e"
  by (simp add: max_entry_def)

lemma low_mask_fixed: "((0xffffffff :: hsize_t) AND u = u) = (u < 2 ^ 32)"
proof -
  have m: "(0xffffffff :: hsize_t) = mask 32"
    by (simp add: mask_eq_exp_minus_1)
  have "(32 :: nat) < size u" by (simp add: word_size)
  then have "(u AND mask 32 = u) = (u < 2 ^ 32)" by (rule mask_eq_iff_w2p)
  then show ?thesis unfolding m by (simp only: and.commute)
qed

text \<open>
  Claim C3.  For a negative entry of the maximum extents \<^verbatim>\<open>CreateSimple\<close> does not
  return an error, but what it hands to the library is \<^verbatim>\<open>H5S_UNLIMITED\<close> masked
  with \<open>0xffffffff\<close>: that is the sentinel only if the sentinel is below \<open>2 ^ 32\<close>.
  With the 64-bit sentinel of the library (all bits set) the call for shape \<open>[3]\<close>
  and maximum \<open>[-1]\<close> carries the finite maximum \<open>4294967295\<close>, which is not the
  sentinel.
\<close>

theorem CreateSimple_negative_max_is_masked:
  "CreateSimple (e\<lparr>H5S_UNLIMITED := - 1\<rparr>) [3] (Some [- 1]) l =
     (Ret (try_s e (ret e l (H5Screate_simple 1 [3] (Some [4294967295]))) ''creating simple dataspace'' []),
      l @ [H5Screate_simple 1 [3] (Some [4294967295])]) \<and>
   (4294967295 :: hsize_t) \<noteq> H5S_UNLIMITED (e\<lparr>H5S_UNLIMITED := - 1\<rparr>) \<and>
   max_entry e (- 1) = 0xffffffff AND H5S_UNLIMITED e \<and>
   (max_entry e (- 1) = H5S_UNLIMITED e) = (H5S_UNLIMITED e < 2 ^ 32)"
proof -
  have "max_entry (e\<lparr>H5S_UNLIMITED := - 1\<rparr>) (- 1) = 0xffffffff AND (- 1)"
    by (simp add: max_entry_negative)
  then have "max_entry (e\<lparr>H5S_UNLIMITED := - 1\<rparr>) (- 1) = 4294967295"
    by simp
  then have 1: "CreateSimple (e\<lparr>H5S_UNLIMITED := - 1\<rparr>) [3] (Some [- 1]) l =
     (Ret (try_s e (ret e l (H5Screate_simple 1 [3] (Some [4294967295]))) ''creating simple dataspace'' []),
      l @ [H5Screate_simple 1 [3] (Some [4294967295])])"
    by (simp add: CreateSimple_def ccall_def Let_def try_s_def)
  have 2: "(4294967295 :: hsize_t) \<noteq> H5S_UNLIMITED (e\<lparr>H5S_UNLIMITED := - 1\<rparr>)"
    by simp
  have 3: "max_entry e (- 1) = 0xffffffff AND H5S_UNLIMITED e"
    by (simp add: max_entry_negative)
  have 4: "(max_entry e (- 1) = H5S_UNLIMITED e) = (H5S_UNLIMITED e < 2 ^ 32)"
    unfolding 3 by (rule low_mask_fixed)
  from 1 2 3 4 show ?thesis by blast
qed








text \<open>
  Two runs outside the statement above.  With tuples of different lengths the
  loop does leave the buffer, which is sized from the first tuple.  With empty
  tuples the loop writes nothing and the buffer is empty, so taking the address
  of its first cell for the library call panics.
\<close>

lemma flatten_coords_ragged: "flatten_coords (replicate (2 * 1) 0) 0 [[1], [2, 3]] = None"
  by simp

lemma Points_Ref_empty_tuple: "Points_Ref e pt op [[]] l = (Panic, l)"
  by (simp add: Points_Ref_def)

section \<open>Encoded datatypes and dataspaces\<close>

text \<open>
  Claim C7.  On the empty byte sequence both decoders return the handle \<open>-1\<close>
  with an error, and the log of library calls is unchanged: the decoding routine
  of the library is not called.
\<close>

theorem Decode_empty_fails_without_call:
  "h5t_Decode e [] l = ((- 1, Some (Errorf ''Empty array'' [])), l) \<and>
   h5s_Decode e [] l = ((- 1, Some (Errorf ''Empty array'' [])), l)"
  by (simp add: h5t_Decode_def h5s_Decode_def)

text \<open>
  Claim C1.  The datatype decoder returns the handle \<open>-1\<close> and the error
  \<^verbatim>\<open>Empty array\<close> on every byte sequence, also on a non-empty one that \<^verbatim>\<open>Encode\<close>
  produced: there it calls the library and drops the result.  So decoding an
  encoded datatype never gives the datatype back.
\<close>

theorem h5t_Decode_drops_decoded_datatype:
  "fst (h5t_Decode e bin l) = (- 1, Some (Errorf ''Empty array'' [])) \<and>
   h5t_Decode e [1] l = ((- 1, Some (Errorf ''Empty array'' [])), l @ [H5Tdecode [1]])"
  by (simp add: h5t_Decode_def ccall_def Let_def)

section \<open>Enumerations\<close>








section \<open>Derivation by reflection\<close>

lemma parse_ArrayT: "parse e c (ArrayT n elt) l = array_loop e c [of_nat n] elt l"
  by (simp add: parse.simps)

lemma parse_SliceT:
  "parse e c (SliceT elt) l =
     (case parse e c elt l of
        (Panic, l1) \<Rightarrow> (Panic, l1)
      | (Ret (T', Some err), l1) \<Rightarrow> (Ret (- 1, Some err), l1)
      | (Ret (T', None), l1) \<Rightarrow>
          (let (r, l2) = List e T' l1 in (Ret r, snd (Close e T' l2))))"
  by (simp add: parse.simps)

lemma parse_PtrT: "parse e c (PtrT elt) l = parse e c elt l"
  by (simp add: parse.simps)

lemma parse_StructT: "parse e c (StructT sz flds) l = structure e c (StructT sz flds) l"
  by (simp add: parse.simps structure_def)

lemma parse_array: "parse e c (ArrayT n elt) l = array e c (ArrayT n elt) l"
  by (simp add: parse.simps array_def)

lemma array_loop_ArrayT:
  "array_loop e c dims (ArrayT n elt) l = array_loop e c (dims @ [of_nat n]) elt l"
  by (simp add: array_loop.simps)

lemma array_loop_base:
  "Kind T \<noteq> reflect_Array \<Longrightarrow>
   array_loop e c dims T l =
     (case parse e c T l of
        (Panic, l1) \<Rightarrow> (Panic, l1)
      | (Ret (T', Some err), l1) \<Rightarrow> (Ret (- 1, Some err), l1)
      | (Ret (T', None), l1) \<Rightarrow>
          (let (r, l2) = NDarray e T' dims l1 in (r, snd (Close e T' l2))))"
  by (cases T) (simp_all add: array_loop.simps)

lemma array_loop_nest:
  "array_loop e c dims (foldr ArrayT ns T) l = array_loop e c (dims @ map of_nat ns) T l"
  by (induction ns arbitrary: dims) (simp_all add: array_loop_ArrayT)

lemma NDarray_call:
  "dims \<noteq> [] \<Longrightarrow>
   NDarray e T dims l =
     (Ret (try_t e (ret e l (H5Tarray_create2 T (of_nat (length dims)) dims)) ''creating NDarray datatype'' []),
      l @ [H5Tarray_create2 T (of_nat (length dims)) dims])"
  by (simp add: NDarray_def ccall_def Let_def map_idI)

lemma snd_Close: "snd (Close e T l) = l @ [H5Tclose T]"
  by (simp add: Close_def ccall_def)

text \<open>
  Claim C6.  For directly nested arrays \<^verbatim>\<open>[n1]...[nk]T\<close>, with \<^verbatim>\<open>T\<close> not an array,
  \<^verbatim>\<open>array\<close> derives \<^verbatim>\<open>T\<close> once and, when that gives a handle \<open>T'\<close>, makes one call of
  \<^verbatim>\<open>H5Tarray_create2\<close> with element \<open>T'\<close>, rank \<open>k\<close> and the extents \<open>n1, ..., nk\<close>,
  the outermost first, followed by the deferred close of \<open>T'\<close>.  An error of the
  derivation of \<^verbatim>\<open>T\<close> is passed on with the handle \<open>-1\<close>, a panic as a panic.
\<close>

theorem nested_arrays_flatten:
  assumes "ns \<noteq> []" and "Kind T \<noteq> reflect_Array"
  shows "array e c (foldr ArrayT ns T) l =
           (case parse e c T l of
              (Panic, l1) \<Rightarrow> (Panic, l1)
            | (Ret (T', Some err), l1) \<Rightarrow> (Ret (- 1, Some err), l1)
            | (Ret (T', None), l1) \<Rightarrow>
                (Ret (try_t e (ret e l1 (H5Tarray_create2 T' (of_nat (length ns)) (map of_nat ns)))
                        ''creating NDarray datatype'' []),
                 l1 @ [H5Tarray_create2 T' (of_nat (length ns)) (map of_nat ns), H5Tclose T'])) \<and>
         parse e c (foldr ArrayT ns T) l = array e c (foldr ArrayT ns T) l"
proof -
  obtain n ns' where ns: "ns = n # ns'" using assms(1) by (cases ns) auto
  have dims: "map of_nat ns \<noteq> ([] :: uint list)" using assms(1) by simp
  have "array e c (foldr ArrayT ns T) l = array_loop e c (map of_nat ns) T l"
    by (simp add: ns array_def array_loop_nest)
  also have "\<dots> = (case parse e c T l of
              (Panic, l1) \<Rightarrow> (Panic, l1)
            | (Ret (T', Some err), l1) \<Rightarrow> (Ret (- 1, Some err), l1)
            | (Ret (T', None), l1) \<Rightarrow>
                (Ret (try_t e (ret e l1 (H5Tarray_create2 T' (of_nat (length ns)) (map of_nat ns)))
                        ''creating NDarray datatype'' []),
                 l1 @ [H5Tarray_create2 T' (of_nat (length ns)) (map of_nat ns), H5Tclose T']))"
    unfolding array_loop_base [OF assms(2)]
    by (simp add: NDarray_call [OF dims] snd_Close split: prod.splits res.splits option.splits)
  finally have 1: "array e c (foldr ArrayT ns T) l = \<dots>" .
  have 2: "parse e c (foldr ArrayT ns T) l = array e c (foldr ArrayT ns T) l"
    by (simp add: ns parse_array)
  from 1 2 show ?thesis by blast
qed

lemma parse_int32_plain:
  "parse plain_engine None (Prim int32_t) [] =
     (Ret (5, None), [H5Tcopy 1, H5Tset_size 5 4, H5Tset_sign 5 H5T_SGN_2])"
  by code_simp

theorem nested_arrays_flatten_witness:
  "[2, 3] \<noteq> ([] :: nat list) \<and> Kind (Prim int32_t) \<noteq> reflect_Array \<and>
   array plain_engine None (ArrayT 2 (ArrayT 3 (Prim int32_t))) [] =
     (Ret (5, None),
      [H5Tcopy 1, H5Tset_size 5 4, H5Tset_sign 5 H5T_SGN_2,
       H5Tarray_create2 5 2 [2, 3], H5Tclose 5]) \<and>
   parse plain_engine None (ArrayT 2 (ArrayT 3 (Prim int32_t))) [] =
     array plain_engine None (ArrayT 2 (ArrayT 3 (Prim int32_t))) []"
proof -
  have k: "Kind (Prim int32_t) \<noteq> reflect_Array" by simp
  have n: "[2, 3] \<noteq> ([] :: nat list)" by simp
  have r: "ret plain_engine l (H5Tarray_create2 T rank dims) = 5" for l T rank dims
    by (simp add: plain_engine_def)
  from nested_arrays_flatten [OF n k, of plain_engine None "[]"] k
  show ?thesis
    by (simp add: parse_int32_plain r try_t_def Status_def)
qed

lemma structure_loop_Done:
  "structure_loop e lc flds acc l = ((out, Done), l') \<Longrightarrow>
   map Name out = map Name acc @
     map (\<lambda>f. if hdf_tag f \<noteq> '''' then hdf_tag f else fname f) (filter (\<lambda>f. hdf_tag f \<noteq> ''ignore'') flds) \<and>
   map Offset out = map Offset acc @
     map (\<lambda>f. int (foffset f)) (filter (\<lambda>f. hdf_tag f \<noteq> ''ignore'') flds)"
proof (induction flds arbitrary: acc l)
  case Nil
  then show ?case by simp
next
  case (Cons fld rest)
  show ?case
  proof (cases "hdf_tag fld = ''ignore''")
    case True
    with Cons.prems have "structure_loop e lc rest acc l = ((out, Done), l')" by simp
    from Cons.IH [OF this] True show ?thesis by simp
  next
    case False
    let ?r = "if hdftype_tag fld \<noteq> '''' then Open e lc (hdftype_tag fld) (DefaultAccess e) l
              else parse e lc (ftyp fld) l"
    let ?name = "if hdf_tag fld \<noteq> '''' then hdf_tag fld else fname fld"
    from Cons.prems False obtain ftype l1 where r: "?r = (Ret (ftype, None), l1)"
      and rest: "structure_loop e lc rest
                   (acc @ [\<lparr>Name = ?name, Type = ftype, Offset = int (foffset fld)\<rparr>]) l1 = ((out, Done), l')"
      by (auto simp: Let_def split: prod.splits res.splits option.splits if_splits)
    from Cons.IH [OF rest] False show ?thesis by simp
  qed
qed

lemma Struct_insert_ok:
  "Struct_insert e T flds l = ((T', None), l') \<Longrightarrow>
   T' = T \<and> l' = l @ map (\<lambda>f. H5Tinsert T (Name f) (word_of_int (Offset f)) (Type f)) flds"
proof (induction flds arbitrary: l)
  case Nil
  then show ?case by simp
next
  case (Cons fld flds)
  from Cons.prems
  have "Struct_insert e T flds (l @ [H5Tinsert T (Name fld) (word_of_int (Offset fld)) (Type fld)]) = ((T', None), l')"
    by (simp add: ccall_def Let_def split: if_splits)
  from Cons.IH [OF this] show ?case by simp
qed

lemma Struct_ok:
  assumes "Struct e sz flds l = ((T, None), l')"
  shows "l' = l @ H5Tcreate COMPOUND (word_of_int sz) #
                map (\<lambda>f. H5Tinsert T (Name f) (word_of_int (Offset f)) (Type f)) flds"
proof -
  let ?T = "ret e l (H5Tcreate COMPOUND (word_of_int sz))"
  from assms have "Struct_insert e ?T flds (l @ [H5Tcreate COMPOUND (word_of_int sz)]) = ((T, None), l')"
    by (simp add: Struct_def Create_def ccall_def try_t_def Let_def split: if_splits)
  from Struct_insert_ok [OF this] show ?thesis by simp
qed

text \<open>
  Claim C5.  When \<^verbatim>\<open>structure\<close> derives a compound datatype \<open>T\<close> for a structure
  type, its field loop has collected exactly the members whose \<^verbatim>\<open>hdf\<close> tag is not
  \<^verbatim>\<open>ignore\<close>, in declaration order, each under its \<^verbatim>\<open>hdf\<close> tag when that is not
  empty and under its own name otherwise, at the offset that reflection reports
  for it.  The compound is created with the size of the structure type and these
  fields are inserted into it in that order, before the deferred closes.
\<close>

theorem structure_fields_in_order:
  assumes "structure e lc (StructT sz flds) l = (Ret (T, None), l')"
  shows "\<exists>fields' l1.
           structure_loop e lc flds [] l = ((fields', Done), l1) \<and>
           map Name fields' =
             map (\<lambda>f. if hdf_tag f \<noteq> '''' then hdf_tag f else fname f)
                 (filter (\<lambda>f. hdf_tag f \<noteq> ''ignore'') flds) \<and>
           map Offset fields' =
             map (\<lambda>f. int (foffset f)) (filter (\<lambda>f. hdf_tag f \<noteq> ''ignore'') flds) \<and>
           l' = closes e (rev (map Type fields'))
                  (l1 @ H5Tcreate COMPOUND (of_nat sz) #
                        map (\<lambda>f. H5Tinsert T (Name f) (word_of_int (Offset f)) (Type f)) fields')"
proof -
  obtain fields' ex l1 where loop: "structure_loop e lc flds [] l = ((fields', ex), l1)"
    by (metis surj_pair)
  from assms loop have ex: "ex = Done"
    by (cases ex) (simp_all add: structure_def split: prod.splits)
  from assms loop ex obtain l2 where st: "Struct e (int sz) fields' l1 = ((T, None), l2)"
    and l': "l' = closes e (rev (map Type fields')) l2"
    by (auto simp: structure_def split: prod.splits)
  from Struct_ok [OF st] have l2: "l2 = l1 @ H5Tcreate COMPOUND (of_nat sz) #
                        map (\<lambda>f. H5Tinsert T (Name f) (word_of_int (Offset f)) (Type f)) fields'"
    by simp
  from structure_loop_Done [of e lc flds "[]" l fields' l1] loop ex
  have "map Name fields' =
             map (\<lambda>f. if hdf_tag f \<noteq> '''' then hdf_tag f else fname f)
                 (filter (\<lambda>f. hdf_tag f \<noteq> ''ignore'') flds)"
    and "map Offset fields' =
             map (\<lambda>f. int (foffset f)) (filter (\<lambda>f. hdf_tag f \<noteq> ''ignore'') flds)"
    by simp_all
  with loop ex l' l2 show ?thesis by blast
qed

lemma structure_plain:
  "structure plain_engine None
     (StructT 16 [SField ''a'' ''x'' '''' (Prim int8_t) 0,
                  SField ''b'' ''ignore'' '''' FuncT 4,
                  SField ''c'' '''' '''' (Prim bool_t) 8]) [] =
   (Ret (5, None),
    [H5Tcopy 1, H5Tset_size 5 1, H5Tset_sign 5 H5T_SGN_2, H5Tcopy 1,
     H5Tcreate COMPOUND 16, H5Tinsert 5 ''x'' 0 5, H5Tinsert 5 ''c'' 8 5,
     H5Tclose 5, H5Tclose 5])"
  by code_simp

theorem structure_fields_in_order_witness:
  "structure plain_engine None
     (StructT 16 [SField ''a'' ''x'' '''' (Prim int8_t) 0,
                  SField ''b'' ''ignore'' '''' FuncT 4,
                  SField ''c'' '''' '''' (Prim bool_t) 8]) [] =
   (Ret (5, None),
    [H5Tcopy 1, H5Tset_size 5 1, H5Tset_sign 5 H5T_SGN_2, H5Tcopy 1,
     H5Tcreate COMPOUND 16, H5Tinsert 5 ''x'' 0 5, H5Tinsert 5 ''c'' 8 5,
     H5Tclose 5, H5Tclose 5]) \<and>
   (\<exists>fields' l1.
      structure_loop plain_engine None
        [SField ''a'' ''x'' '''' (Prim int8_t) 0,
         SField ''b'' ''ignore'' '''' FuncT 4,
         SField ''c'' '''' '''' (Prim bool_t) 8] [] [] = ((fields', Done), l1) \<and>
      map Name fields' = [''x'', ''c''] \<and>
      map Offset fields' = [0, 8])"
proof -
  from structure_fields_in_order [OF structure_plain] structure_plain
  show ?thesis by auto
qed

lemma basic_kind_not_Array: "basic_kind b \<noteq> reflect_Array"
  by (cases b) simp_all

lemma array_loop_error:
  "Kind T \<noteq> reflect_Array \<Longrightarrow> parse e c T l = (Ret (h, Some err), l') \<Longrightarrow>
   array_loop e c dims T l = (Ret (- 1, Some err), l')"
  by (simp add: array_loop_base)

lemma field_type_smaller: "fld \<in> set flds \<Longrightarrow> size (ftyp fld) < size (StructT sz flds)"
proof -
  assume "fld \<in> set flds"
  then have "size fld \<le> size_list size flds" by (rule size_list_estimation') simp
  with size_ftyp [of fld] show ?thesis by simp
qed

lemma Open_result:
  "\<exists>r err. Open e (Some at) name access l = (Ret (r, err), l @ [H5Topen at name access]) \<and>
           (err = None \<longleftrightarrow> 0 \<le> ret e l (H5Topen at name access))"
  by (simp add: Open_def ccall_def try_t_def Status_def)

lemma fields_abort:
  assumes types: "\<And>fld l. fld \<in> set flds \<Longrightarrow> encounters e ctxt (ftyp fld) l \<Longrightarrow>
                    \<exists>err l'. parse e ctxt (ftyp fld) l = (Ret (- 1, Some err), l')"
    and enc: "encounters_fields e ctxt flds l"
  shows "\<exists>acc' err l'. structure_loop e ctxt flds acc l = ((acc', Failed err), l')"
  using types enc
proof (induction flds arbitrary: acc l)
  case Nil
  then show ?case by simp
next
  case (Cons fld rest)
  have IH: "encounters_fields e ctxt rest l1 \<Longrightarrow>
            \<exists>acc' err l'. structure_loop e ctxt rest acc1 l1 = ((acc', Failed err), l')" for acc1 l1
    using Cons.IH [of l1 acc1] Cons.prems(1) by simp
  show ?case
  proof (cases "hdf_tag fld = ''ignore''")
    case True
    with Cons.prems(2) have "encounters_fields e ctxt rest l" by simp
    from IH [OF this] True show ?thesis by simp
  next
    case ign: False
    show ?thesis
    proof (cases "hdftype_tag fld \<noteq> ''''")
      case True
      with ign Cons.prems(2) obtain at where at: "ctxt = Some at"
        and d: "ret e l (H5Topen at (hdftype_tag fld) (DefaultAccess e)) < 0 \<or>
                encounters_fields e ctxt rest (l @ [H5Topen at (hdftype_tag fld) (DefaultAccess e)])"
        by (auto simp: Let_def split: option.splits)
      let ?c = "H5Topen at (hdftype_tag fld) (DefaultAccess e)"
      obtain r err where op: "Open e (Some at) (hdftype_tag fld) (DefaultAccess e) l = (Ret (r, err), l @ [?c])"
        and errn: "err = None \<longleftrightarrow> 0 \<le> ret e l ?c"
        using Open_result [of e at "hdftype_tag fld" "DefaultAccess e" l] by blast
      show ?thesis
      proof (cases err)
        case (Some x)
        with op ign True at show ?thesis by simp
      next
        case None
        with errn d have "encounters_fields e ctxt rest (l @ [?c])" by simp
        from IH [OF this] op ign True at None show ?thesis by simp
      qed
    next
      case False
      with ign Cons.prems(2)
      have d: "encounters e ctxt (ftyp fld) l \<or>
               (\<exists>ftype l1. parse e ctxt (ftyp fld) l = (Ret (ftype, None), l1) \<and>
                            encounters_fields e ctxt rest l1)"
        by (auto split: prod.splits res.splits option.splits)
      then show ?thesis
      proof
        assume "encounters e ctxt (ftyp fld) l"
        with Cons.prems(1) [of fld l] obtain err l' where
          "parse e ctxt (ftyp fld) l = (Ret (- 1, Some err), l')" by auto
        with ign False show ?thesis by simp
      next
        assume "\<exists>ftype l1. parse e ctxt (ftyp fld) l = (Ret (ftype, None), l1) \<and>
                            encounters_fields e ctxt rest l1"
        then obtain ftype l1 where p: "parse e ctxt (ftyp fld) l = (Ret (ftype, None), l1)"
          and r: "encounters_fields e ctxt rest l1" by blast
        from IH [OF r] p ign False show ?thesis by simp
      qed
    qed
  qed
qed

lemma structure_Failed:
  "structure_loop e ctxt flds [] l = ((acc', Failed err), l') \<Longrightarrow>
   structure e ctxt (StructT sz flds) l = (Ret (- 1, Some err), closes e (rev (map Type acc')) l')"
  by (simp add: structure_def)

lemma walk_abort:
  "encounters e ctxt T l \<Longrightarrow>
   (\<exists>err l'. parse e ctxt T l = (Ret (- 1, Some err), l')) \<and>
   (\<forall>dims. \<exists>err l'. array_loop e ctxt dims T l = (Ret (- 1, Some err), l'))"
proof (induction T arbitrary: l rule: measure_induct_rule [of size])
  case (less T)
  have base: "\<exists>err l'. parse e ctxt T l = (Ret (- 1, Some err), l') \<Longrightarrow> Kind T \<noteq> reflect_Array \<Longrightarrow> ?case"
    using array_loop_error [of T e ctxt l] by blast
  show ?case
  proof (cases T)
    case (Prim b)
    with less.prems have "basic_kind b \<in> {reflect_Invalid, reflect_Uintptr, reflect_UnsafePointer}"
      by (cases b) (simp_all add: encounters.simps)
    with Prim have "\<exists>err l'. parse e ctxt T l = (Ret (- 1, Some err), l')"
      by (auto simp: parse.simps)
    with Prim show ?thesis by (intro base) (simp_all add: basic_kind_not_Array)
  next
    case (ArrayT n elt)
    with less.prems have "encounters e ctxt elt l" by (simp add: encounters.simps)
    with less.IH [of elt l] ArrayT
    have "\<forall>dims. \<exists>err l'. array_loop e ctxt dims elt l = (Ret (- 1, Some err), l')" by simp
    with ArrayT show ?thesis by (simp add: parse_ArrayT array_loop_ArrayT)
  next
    case (ChanT elt)
    then have "\<exists>err l'. parse e ctxt T l = (Ret (- 1, Some err), l')" by (simp add: parse.simps)
    with ChanT show ?thesis by (intro base) simp_all
  next
    case FuncT
    then have "\<exists>err l'. parse e ctxt T l = (Ret (- 1, Some err), l')" by (simp add: parse.simps)
    with FuncT show ?thesis by (intro base) simp_all
  next
    case InterfaceT
    with less.prems show ?thesis by (simp add: encounters.simps)
  next
    case (MapT k v)
    then have "\<exists>err l'. parse e ctxt T l = (Ret (- 1, Some err), l')" by (simp add: parse.simps)
    with MapT show ?thesis by (intro base) simp_all
  next
    case (PtrT elt)
    with less.prems have "encounters e ctxt elt l" by (simp add: encounters.simps)
    with less.IH [of elt l] PtrT
    have "\<exists>err l'. parse e ctxt T l = (Ret (- 1, Some err), l')" by (simp add: parse.simps)
    with PtrT show ?thesis by (intro base) simp_all
  next
    case (SliceT elt)
    with less.prems have "encounters e ctxt elt l" by (simp add: encounters.simps)
    with less.IH [of elt l] SliceT obtain err l' where "parse e ctxt elt l = (Ret (- 1, Some err), l')"
      by auto
    with SliceT have "\<exists>err l'. parse e ctxt T l = (Ret (- 1, Some err), l')" by (simp add: parse.simps)
    with SliceT show ?thesis by (intro base) simp_all
  next
    case (StructT sz flds)
    with less.prems have enc: "encounters_fields e ctxt flds l" by (simp add: encounters.simps)
    have "\<exists>err l'. parse e ctxt (ftyp fld) l = (Ret (- 1, Some err), l')"
      if "fld \<in> set flds" "encounters e ctxt (ftyp fld) l" for fld l
      using less.IH [of "ftyp fld" l] field_type_smaller [OF that(1), of sz] that(2) StructT by simp
    from fields_abort [OF this enc, of "[]"] obtain acc' err l' where
      "structure_loop e ctxt flds [] l = ((acc', Failed err), l')" by blast
    from structure_Failed [OF this, of sz] StructT
    have "\<exists>err l'. parse e ctxt T l = (Ret (- 1, Some err), l')" by (simp add: parse_StructT)
    with StructT show ?thesis by (intro base) simp_all
  qed
qed

text \<open>
  Claim C4.  When the walk of \<^verbatim>\<open>Parse\<close> over the type of the value comes to a map,
  a channel, a function, an invalid type, a \<^verbatim>\<open>uintptr\<close> or an unsafe pointer, or to
  a field whose \<^verbatim>\<open>hdftype\<close> lookup in the location fails, \<^verbatim>\<open>Parse\<close> returns the handle
  \<open>-1\<close> together with an error: no datatype of an enclosing structure, array or
  list is returned, and the declared type of the field whose lookup failed is
  not derived in its place.
\<close>

theorem Parse_aborts_on_unserializable:
  assumes "encounters e ctxt T l"
  shows "\<exists>err l'. Parse e (Some T) ctxt l = (Ret (- 1, Some err), l')"
  using walk_abort [OF assms] by (simp add: Parse_def)

lemma encounters_plain:
  "encounters plain_engine (Some 3)
     (StructT 24 [SField ''a'' '''' '''' (Prim int8_t) 0,
                  SField ''t'' '''' ''T'' (Prim bool_t) 8,
                  SField ''f'' '''' '''' FuncT 16]) []"
  by code_simp

theorem Parse_aborts_on_unserializable_witness:
  "encounters plain_engine (Some 3)
     (StructT 24 [SField ''a'' '''' '''' (Prim int8_t) 0,
                  SField ''t'' '''' ''T'' (Prim bool_t) 8,
                  SField ''f'' '''' '''' FuncT 16]) [] \<and>
   (\<exists>err l'.
      Parse plain_engine
        (Some (StructT 24 [SField ''a'' '''' '''' (Prim int8_t) 0,
                           SField ''t'' '''' ''T'' (Prim bool_t) 8,
                           SField ''f'' '''' '''' FuncT 16])) (Some 3) [] =
      (Ret (- 1, Some err), l'))"
  using Parse_aborts_on_unserializable [OF encounters_plain] encounters_plain by blast

end
